theory Spec2Isabelle
  imports Complex_Main
begin

section \<open>JavaScript numbers\<close>

text \<open>
  The widget computes with JavaScript numbers.  A number is modelled as a real, one of the
  two infinities, or NaN, so that a division by zero or a logarithm of a non-positive
  argument is a value of the model, as it is a value of the program.  Arithmetic on finite
  operands is the exact arithmetic of the reals: rounding and overflow of finite
  results are outside the model, and so is the sign of zero (every zero is \<open>+0\<close>).
  A finite value that a theorem below gives is therefore the value of the program up to
  rounding, and as long as no intermediate result leaves the range of a double.  That a
  result is not finite is stated only where an operand is already not finite or a divisor
  is zero, which rounding and overflow do not change.
\<close>

datatype jsnum = Fin real | PInf | NInf | NaN

fun isFinite :: "jsnum \<Rightarrow> bool" where
  "isFinite (Fin _) = True"
| "isFinite _ = False"

text \<open>The infinity with the sign of \<open>s\<close>; NaN for \<open>s = 0\<close> (as in \<open>0 * Infinity\<close>, \<open>0 / 0\<close>).\<close>

definition signedInf :: "real \<Rightarrow> jsnum" where
  "signedInf s = (if s = 0 then NaN else if 0 < s then PInf else NInf)"

fun js_neg :: "jsnum \<Rightarrow> jsnum" where
  "js_neg (Fin a) = Fin (- a)"
| "js_neg PInf = NInf"
| "js_neg NInf = PInf"
| "js_neg NaN = NaN"

fun js_add :: "jsnum \<Rightarrow> jsnum \<Rightarrow> jsnum" where
  "js_add (Fin a) (Fin b) = Fin (a + b)"
| "js_add NaN _ = NaN"
| "js_add _ NaN = NaN"
| "js_add PInf NInf = NaN"
| "js_add NInf PInf = NaN"
| "js_add PInf _ = PInf"
| "js_add NInf _ = NInf"
| "js_add _ PInf = PInf"
| "js_add _ NInf = NInf"

definition js_sub :: "jsnum \<Rightarrow> jsnum \<Rightarrow> jsnum" where
  "js_sub a b = js_add a (js_neg b)"

fun js_mul :: "jsnum \<Rightarrow> jsnum \<Rightarrow> jsnum" where
  "js_mul (Fin a) (Fin b) = Fin (a * b)"
| "js_mul NaN _ = NaN"
| "js_mul _ NaN = NaN"
| "js_mul PInf (Fin b) = signedInf b"
| "js_mul NInf (Fin b) = signedInf (- b)"
| "js_mul (Fin a) PInf = signedInf a"
| "js_mul (Fin a) NInf = signedInf (- a)"
| "js_mul PInf PInf = PInf"
| "js_mul PInf NInf = NInf"
| "js_mul NInf PInf = NInf"
| "js_mul NInf NInf = PInf"

fun js_div :: "jsnum \<Rightarrow> jsnum \<Rightarrow> jsnum" where
  "js_div (Fin a) (Fin b) = (if b = 0 then signedInf a else Fin (a / b))"
| "js_div NaN _ = NaN"
| "js_div _ NaN = NaN"
| "js_div (Fin a) PInf = Fin 0"
| "js_div (Fin a) NInf = Fin 0"
| "js_div PInf (Fin b) = (if 0 \<le> b then PInf else NInf)"
| "js_div NInf (Fin b) = (if 0 \<le> b then NInf else PInf)"
| "js_div PInf PInf = NaN"
| "js_div PInf NInf = NaN"
| "js_div NInf PInf = NaN"
| "js_div NInf NInf = NaN"

text \<open>\<open>Math.max\<close> of two arguments: NaN as soon as one argument is NaN.\<close>

fun js_max :: "jsnum \<Rightarrow> jsnum \<Rightarrow> jsnum" where
  "js_max (Fin a) (Fin b) = Fin (max a b)"
| "js_max NaN _ = NaN"
| "js_max _ NaN = NaN"
| "js_max PInf _ = PInf"
| "js_max _ PInf = PInf"
| "js_max NInf y = y"
| "js_max x NInf = x"

text \<open>The comparisons \<open><\<close>, \<open><=\<close>, \<open>>=\<close> and \<open>===\<close>: false as soon as one operand is NaN.\<close>

fun js_lt :: "jsnum \<Rightarrow> jsnum \<Rightarrow> bool" where
  "js_lt (Fin a) (Fin b) = (a < b)"
| "js_lt NaN _ = False"
| "js_lt _ NaN = False"
| "js_lt _ NInf = False"
| "js_lt NInf _ = True"
| "js_lt PInf _ = False"
| "js_lt _ PInf = True"

fun js_le :: "jsnum \<Rightarrow> jsnum \<Rightarrow> bool" where
  "js_le (Fin a) (Fin b) = (a \<le> b)"
| "js_le NaN _ = False"
| "js_le _ NaN = False"
| "js_le NInf _ = True"
| "js_le _ PInf = True"
| "js_le _ NInf = False"
| "js_le PInf _ = False"

definition js_ge :: "jsnum \<Rightarrow> jsnum \<Rightarrow> bool" where
  "js_ge a b = js_le b a"

fun js_eq :: "jsnum \<Rightarrow> jsnum \<Rightarrow> bool" where
  "js_eq NaN _ = False"
| "js_eq _ NaN = False"
| "js_eq a b = (a = b)"

fun js_abs :: "jsnum \<Rightarrow> jsnum" where
  "js_abs (Fin a) = Fin \<bar>a\<bar>"
| "js_abs PInf = PInf"
| "js_abs NInf = PInf"
| "js_abs NaN = NaN"

fun js_sqrt :: "jsnum \<Rightarrow> jsnum" where
  "js_sqrt (Fin a) = (if a < 0 then NaN else Fin (sqrt a))"
| "js_sqrt PInf = PInf"
| "js_sqrt NInf = NaN"
| "js_sqrt NaN = NaN"

fun js_log2 :: "jsnum \<Rightarrow> jsnum" where
  "js_log2 (Fin a) = (if a < 0 then NaN else if a = 0 then NInf else Fin (log 2 a))"
| "js_log2 PInf = PInf"
| "js_log2 NInf = NaN"
| "js_log2 NaN = NaN"

fun js_log :: "jsnum \<Rightarrow> jsnum" where
  "js_log (Fin a) = (if a < 0 then NaN else if a = 0 then NInf else Fin (ln a))"
| "js_log PInf = PInf"
| "js_log NInf = NaN"
| "js_log NaN = NaN"

fun js_exp :: "jsnum \<Rightarrow> jsnum" where
  "js_exp (Fin a) = Fin (exp a)"
| "js_exp PInf = PInf"
| "js_exp NInf = Fin 0"
| "js_exp NaN = NaN"

section \<open>Model constants\<close>

text \<open>The fields of \<open>MOE_CONFIG\<close>.\<close>

definition HIDDEN_DIMENSION :: jsnum where
  "HIDDEN_DIMENSION = Fin 6144"

definition BYTES_PER_ELEMENT :: jsnum where
  "BYTES_PER_ELEMENT = Fin 2"

definition TOP_K_EXPERTS :: jsnum where
  "TOP_K_EXPERTS = Fin 2"

section \<open>Performance model\<close>

text \<open>The two factors of \<open>calculateStragglerFactor\<close>, which the function binds locally.\<close>

definition structuralImbalance :: "jsnum \<Rightarrow> jsnum" where
  "structuralImbalance skew = js_add (Fin 1) (js_mul (Fin 2.2) skew)"

definition coordinationPenalty :: "jsnum \<Rightarrow> jsnum" where
  "coordinationPenalty epRanks = js_add (Fin 1) (js_mul (Fin 0.12) (js_log2 epRanks))"

definition calculateStragglerFactor :: "jsnum \<Rightarrow> jsnum \<Rightarrow> jsnum" where
  "calculateStragglerFactor epRanks skew =
     js_mul (structuralImbalance skew) (coordinationPenalty epRanks)"

definition calculateBytesPerToken :: jsnum where
  "calculateBytesPerToken = js_mul (js_mul TOP_K_EXPERTS HIDDEN_DIMENSION) BYTES_PER_ELEMENT"

definition calculateDispatchTimeMs :: "jsnum \<Rightarrow> jsnum \<Rightarrow> jsnum \<Rightarrow> jsnum \<Rightarrow> jsnum" where
  "calculateDispatchTimeMs tokenCount epRanks latencyMicroseconds bandwidthGBps =
     (let latencyMs = js_div latencyMicroseconds (Fin 1000);
          bandwidthBytesPerSec = js_mul bandwidthGBps (Fin 1000000000);
          totalBytes = js_div (js_mul tokenCount calculateBytesPerToken) epRanks;
          transferTimeMs = js_mul (js_div totalBytes bandwidthBytesPerSec) (Fin 1000)
      in js_add latencyMs transferTimeMs)"

definition calculateComputeTimeMs :: "jsnum \<Rightarrow> jsnum \<Rightarrow> jsnum \<Rightarrow> jsnum \<Rightarrow> jsnum" where
  "calculateComputeTimeMs tokenCount epRanks computeUsPerToken skew =
     (let routedTokens = js_mul tokenCount TOP_K_EXPERTS;
          meanTokensPerExpert = js_div routedTokens epRanks;
          randomVariationFactor =
            js_add (Fin 1) (js_div (Fin 3.2) (js_sqrt (js_max (Fin 1) tokenCount)));
          stragglerFactor = calculateStragglerFactor epRanks skew;
          maxExpertLoad = js_mul (js_mul meanTokensPerExpert randomVariationFactor) stragglerFactor
      in js_div (js_mul maxExpertLoad computeUsPerToken) (Fin 1000))"

text \<open>The object that \<open>calculateMoETimings\<close> returns.\<close>

record timings =
  dispatchMs :: jsnum
  computeMs :: jsnum
  combineMs :: jsnum
  sequentialTotalMs :: jsnum
  dboOverlappedMs :: jsnum

definition calculateMoETimings ::
  "jsnum \<Rightarrow> jsnum \<Rightarrow> jsnum \<Rightarrow> jsnum \<Rightarrow> jsnum \<Rightarrow> jsnum \<Rightarrow> timings" where
  "calculateMoETimings tokenCount epRanks latencyUs bandwidthGBps computeUsPerToken skew =
     (let dispatch = calculateDispatchTimeMs tokenCount epRanks latencyUs bandwidthGBps;
          compute = calculateComputeTimeMs tokenCount epRanks computeUsPerToken skew;
          combine = dispatch;
          sequentialTotal = js_add (js_add dispatch compute) combine;
          dboOverlapped = js_max (js_add dispatch combine) compute
      in \<lparr> dispatchMs = dispatch, computeMs = compute, combineMs = combine,
           sequentialTotalMs = sequentialTotal, dboOverlappedMs = dboOverlapped \<rparr>)"

text \<open>All five fields of a timing record are finite numbers.\<close>

definition timingsFinite :: "timings \<Rightarrow> bool" where
  "timingsFinite t \<longleftrightarrow>
     isFinite (dispatchMs t) \<and> isFinite (computeMs t) \<and> isFinite (combineMs t) \<and>
     isFinite (sequentialTotalMs t) \<and> isFinite (dboOverlappedMs t)"

text \<open>
  The communication share of the sequential total, as the third self-test of
  \<open>runSelfTests\<close> computes it.
\<close>

definition commShare :: "timings \<Rightarrow> jsnum" where
  "commShare t = js_div (js_add (dispatchMs t) (combineMs t)) (sequentialTotalMs t)"

section \<open>Timeline schedule\<close>

datatype phase = Dispatch | Compute | Combine

record block =
  phase :: phase
  start :: jsnum
  duration :: jsnum

record schedule =
  batchA :: "block list"
  batchB :: "block list"

text \<open>
  The two fields of the options object that the schedule reads.  Both come from
  checkboxes; the policy is the truth value of \<open>enableDBO\<close> (set: the overlapped,
  dual-batch schedule; unset: the sequential one).
\<close>

record options =
  enableDBO :: bool
  enableSplit :: bool

text \<open>
  \<open>TimelineRenderer._buildSchedule\<close>.  In the sequential branch \<open>t0\<close>, \<open>t1\<close>, \<open>t2\<close> are
  the successive values of the running time \<open>t\<close>.
\<close>

definition buildSchedule :: "timings \<Rightarrow> options \<Rightarrow> schedule" where
  "buildSchedule tm opts =
     (let d = (if enableSplit opts then js_div (dispatchMs tm) (Fin 2) else dispatchMs tm);
          c = (if enableSplit opts then js_div (computeMs tm) (Fin 2) else computeMs tm);
          b = (if enableSplit opts then js_div (combineMs tm) (Fin 2) else combineMs tm)
      in if \<not> enableDBO opts then
           (let t0 = Fin 0;
                t1 = js_add t0 d;
                t2 = js_add t1 c
            in \<lparr> batchA = [\<lparr> phase = Dispatch, start = t0, duration = d \<rparr>,
                            \<lparr> phase = Compute, start = t1, duration = c \<rparr>,
                            \<lparr> phase = Combine, start = t2, duration = b \<rparr>],
                 batchB = [] \<rparr>)
         else
           (let dispatchA = Fin 0;
                dispatchB = js_add dispatchA d;
                computeA = js_add dispatchA d;
                computeB = js_max (js_add dispatchB d) (js_add computeA c);
                combineA = js_max (js_add computeA c) (js_add dispatchB d);
                combineB = js_max (js_add computeB c) (js_add combineA b)
            in \<lparr> batchA = [\<lparr> phase = Dispatch, start = dispatchA, duration = d \<rparr>,
                            \<lparr> phase = Compute, start = computeA, duration = c \<rparr>,
                            \<lparr> phase = Combine, start = combineA, duration = b \<rparr>],
                 batchB = [\<lparr> phase = Dispatch, start = dispatchB, duration = d \<rparr>,
                            \<lparr> phase = Compute, start = computeB, duration = c \<rparr>,
                            \<lparr> phase = Combine, start = combineB, duration = b \<rparr>] \<rparr>))"

text \<open>
  The duration of a phase as the schedule takes it from a timing \<open>x\<close>:
  \<open>options.enableSplit ? x / 2 : x\<close>, on a finite \<open>x\<close>.
\<close>

definition phaseDuration :: "bool \<Rightarrow> real \<Rightarrow> real" where
  "phaseDuration split x = (if split then x / 2 else x)"

text \<open>The end of a block, \<open>start + duration\<close>.\<close>

definition blockEnd :: "block \<Rightarrow> jsnum" where
  "blockEnd blk = js_add (start blk) (duration blk)"

text \<open>
  The last element of an array, \<open>xs[xs.length - 1]\<close>; reading a field of the
  \<open>undefined\<close> that an empty array gives is a TypeError, here \<open>None\<close>.
\<close>

fun lastBlock :: "block list \<Rightarrow> block option" where
  "lastBlock [] = None"
| "lastBlock xs = Some (last xs)"

text \<open>\<open>TimelineRenderer._calculateTotalDuration\<close>.\<close>

definition calculateTotalDuration :: "schedule \<Rightarrow> bool \<Rightarrow> jsnum option" where
  "calculateTotalDuration sched dbo =
     (if \<not> dbo then
        (case lastBlock (batchA sched) of
           None \<Rightarrow> None
         | Some lastBlk \<Rightarrow> Some (blockEnd lastBlk))
      else
        (case lastBlock (batchA sched) of
           None \<Rightarrow> None
         | Some lastA \<Rightarrow>
             (case lastBlock (batchB sched) of
                None \<Rightarrow> None
              | Some lastB \<Rightarrow> Some (js_max (blockEnd lastA) (blockEnd lastB)))))"

section \<open>Crossover of the two kernel curves\<close>

record curvePoint =
  tokens :: jsnum
  llTime :: jsnum
  htTime :: jsnum

text \<open>
  The scan of \<open>DeepEPRenderer._drawCurveLines\<close> over adjacent sample points: the
  first pair at which the difference \<open>llTime - htTime\<close> goes from negative to
  non-negative gives the crossover, interpolated in the logarithm of the token count;
  \<open>None\<close> is the \<open>null\<close> that \<open>crossoverTokens\<close> keeps when no pair qualifies.
\<close>

fun findCrossover :: "curvePoint list \<Rightarrow> jsnum option" where
  "findCrossover (p1 # p2 # ps) =
     (let diff1 = js_sub (llTime p1) (htTime p1);
          diff2 = js_sub (llTime p2) (htTime p2)
      in if js_lt diff1 (Fin 0) \<and> js_ge diff2 (Fin 0) then
           (let t = js_div (js_abs diff1) (js_add (js_abs diff1) (js_abs diff2));
                logT1 = js_log (tokens p1);
                logT2 = js_log (tokens p2);
                logTx = js_add logT1 (js_mul t (js_sub logT2 logT1))
            in Some (js_exp logTx))
         else findCrossover (p2 # ps))"
| "findCrossover _ = None"

section \<open>The cost model on finite inputs\<close>

lemma bytesPerToken_val: "calculateBytesPerToken = Fin 24576"
  by (simp add: calculateBytesPerToken_def TOP_K_EXPERTS_def HIDDEN_DIMENSION_def
      BYTES_PER_ELEMENT_def)

lemma dispatch_finite:
  assumes "P \<noteq> 0" "bw \<noteq> 0"
  shows "calculateDispatchTimeMs (Fin t) (Fin P) (Fin L) (Fin bw) =
           Fin (L / 1000 + (t * 24576 / P) / (bw * 1000000000) * 1000)"
  using assms by (simp add: calculateDispatchTimeMs_def bytesPerToken_val Let_def)

lemma compute_finite:
  assumes "0 < P"
  shows "calculateComputeTimeMs (Fin t) (Fin P) (Fin cu) (Fin s) =
           Fin ((t * 2 / P) * (1 + 3.2 / sqrt (max 1 t)) *
                ((1 + 2.2 * s) * (1 + 0.12 * log 2 P)) * cu / 1000)"
  using assms
  by (simp add: calculateComputeTimeMs_def calculateStragglerFactor_def structuralImbalance_def
      coordinationPenalty_def TOP_K_EXPERTS_def Let_def max_def)

lemma timings_fields:
  "dispatchMs (calculateMoETimings t P L bw cu s) = calculateDispatchTimeMs t P L bw"
  "computeMs (calculateMoETimings t P L bw cu s) = calculateComputeTimeMs t P cu s"
  "combineMs (calculateMoETimings t P L bw cu s) = calculateDispatchTimeMs t P L bw"
  "sequentialTotalMs (calculateMoETimings t P L bw cu s) =
     js_add (js_add (calculateDispatchTimeMs t P L bw) (calculateComputeTimeMs t P cu s))
            (calculateDispatchTimeMs t P L bw)"
  "dboOverlappedMs (calculateMoETimings t P L bw cu s) =
     js_max (js_add (calculateDispatchTimeMs t P L bw) (calculateDispatchTimeMs t P L bw))
            (calculateComputeTimeMs t P cu s)"
  by (simp_all add: calculateMoETimings_def Let_def)

lemma dispatch_nonneg:
  assumes "0 \<le> t" "0 < P" "0 \<le> L" "0 < bw"
  shows "(0::real) \<le> L / 1000 + (t * 24576 / P) / (bw * 1000000000) * 1000"
  using assms by simp

lemma compute_nonneg:
  assumes "0 \<le> t" "1 \<le> P" "0 \<le> cu" "0 \<le> s"
  shows "0 \<le> (t * 2 / P) * (1 + 3.2 / sqrt (max 1 t)) *
               ((1 + 2.2 * s) * (1 + 0.12 * log 2 P)) * cu / 1000"
proof -
  have "0 \<le> log 2 P" using assms by simp
  then have a: "0 \<le> 1 + 0.12 * log 2 P" by simp
  have b: "0 \<le> 1 + 2.2 * s" using assms by simp
  have c: "0 \<le> 1 + 3.2 / sqrt (max 1 t)" by (simp add: max_def)
  have d: "0 \<le> t * 2 / P" using assms by simp
  show ?thesis using a b c d assms by simp
qed

section \<open>Aggregate totals\<close>

text \<open>
  C1, as the code has it.  The two totals are the sum and the maximum the claim names, for
  every input.  The overlapped total is at most the sequential total when the token count,
  the latency, the compute cost per token and the skew are non-negative (with
  \<open>P \<ge> 1\<close> and a positive bandwidth): finite inputs alone are not enough, since a
  negative latency gives a negative dispatch time.
\<close>

theorem overlap_never_hurts_valid:
  assumes "1 \<le> P" "0 < bw" "0 \<le> t" "0 \<le> L" "0 \<le> cu" "0 \<le> s"
  shows "let r = calculateMoETimings (Fin t) (Fin P) (Fin L) (Fin bw) (Fin cu) (Fin s) in
           sequentialTotalMs r = js_add (js_add (dispatchMs r) (computeMs r)) (combineMs r) \<and>
           dboOverlappedMs r = js_max (js_add (dispatchMs r) (combineMs r)) (computeMs r) \<and>
           js_le (dboOverlappedMs r) (sequentialTotalMs r)"
proof -
  have P: "0 < P" "P \<noteq> 0" and bw: "bw \<noteq> 0" using assms by simp_all
  have d: "0 \<le> L / 1000 + (t * 24576 / P) / (bw * 1000000000) * 1000"
    using dispatch_nonneg[of t P L bw] assms by simp
  have c: "0 \<le> (t * 2 / P) * (1 + 3.2 / sqrt (max 1 t)) *
                  ((1 + 2.2 * s) * (1 + 0.12 * log 2 P)) * cu / 1000"
    using compute_nonneg[OF assms(3) assms(1) assms(5) assms(6)] .
  show ?thesis
    unfolding Let_def timings_fields dispatch_finite[OF P(2) bw] compute_finite[OF P(1)]
    using d c by simp
qed

theorem overlap_never_hurts_valid_witness:
  "(1::real) \<le> 16 \<and> (0::real) < 25 \<and> (0::real) \<le> 1024 \<and> (0::real) \<le> 25 \<and>
   (0::real) \<le> 0.45 \<and> (0::real) \<le> 0.1 \<and>
   (let r = calculateMoETimings (Fin 1024) (Fin 16) (Fin 25) (Fin 25) (Fin 0.45) (Fin 0.1) in
      sequentialTotalMs r = js_add (js_add (dispatchMs r) (computeMs r)) (combineMs r) \<and>
      dboOverlappedMs r = js_max (js_add (dispatchMs r) (combineMs r)) (computeMs r) \<and>
      js_le (dboOverlappedMs r) (sequentialTotalMs r))"
  using overlap_never_hurts_valid[of 16 25 1024 25 "0.45" "0.1"] by simp

text \<open>
  With finite inputs, \<open>P = 1\<close> and bandwidth 1, but a latency of \<open>-1000\<close> microseconds and
  no tokens: dispatch is \<open>-1\<close> ms, compute is 0, the sequential total is \<open>-2\<close> and the
  overlapped total is \<open>max(-2, 0) = 0\<close>.
\<close>

theorem overlap_hurts_negative_latency:
  "(1::real) \<le> 1 \<and> (0::real) < 1 \<and>
   \<not> js_le
       (dboOverlappedMs
          (calculateMoETimings (Fin 0) (Fin 1) (Fin (- 1000)) (Fin 1) (Fin 0) (Fin 0)))
       (sequentialTotalMs
          (calculateMoETimings (Fin 0) (Fin 1) (Fin (- 1000)) (Fin 1) (Fin 0) (Fin 0)))"
  by (simp add: timings_fields dispatch_finite compute_finite)

section \<open>Compute time\<close>

text \<open>
  C3.  For a token count \<open>t \<ge> 0\<close>, \<open>P \<ge> 1\<close>, a compute cost \<open>cu \<ge> 0\<close> and a skew in
  \<open>[0, 1]\<close>, the compute time is
  \<open>(t * topK / P) * (1 + 3.2 / sqrt (max 1 t)) * (1 + 2.2 * skew) * (1 + 0.12 * log2 P) * cu / 1000\<close>
  with \<open>topK = 2\<close>, a finite number (nothing is raised), and the coordination penalty of
  \<open>P = 1\<close> is exactly 1.
\<close>

theorem compute_time_formula:
  assumes "0 \<le> t" "1 \<le> P" "0 \<le> cu" "0 \<le> s" "s \<le> 1"
  shows "calculateComputeTimeMs (Fin t) (Fin P) (Fin cu) (Fin s) =
           Fin ((t * 2 / P) * (1 + 3.2 / sqrt (max 1 t)) * (1 + 2.2 * s) *
                (1 + 0.12 * log 2 P) * cu / 1000)
         \<and> coordinationPenalty (Fin 1) = Fin 1"
proof -
  have P: "0 < P" using assms by simp
  show ?thesis
    unfolding compute_finite[OF P] by (simp add: coordinationPenalty_def)
qed

theorem compute_time_formula_witness:
  "(0::real) \<le> 1024 \<and> (1::real) \<le> 1 \<and> (0::real) \<le> 0.45 \<and> (0::real) \<le> 0.1 \<and>
   (0.1::real) \<le> 1 \<and>
   calculateComputeTimeMs (Fin 1024) (Fin 1) (Fin 0.45) (Fin 0.1) =
     Fin ((1024 * 2 / 1) * (1 + 3.2 / sqrt (max 1 1024)) * (1 + 2.2 * 0.1) *
          (1 + 0.12 * log 2 1) * 0.45 / 1000)
   \<and> coordinationPenalty (Fin 1) = Fin 1"
  using compute_time_formula[of 1024 1 "0.45" "0.1"] by simp

section \<open>Symmetric communication legs\<close>

text \<open>
  C4.  For every parameter set with \<open>P \<ge> 1\<close> and a positive bandwidth, the combine time
  of the returned record is the dispatch time, as a value and under the
  strict equality of the language.
\<close>

theorem combine_equals_dispatch:
  assumes "1 \<le> P" "0 < bw"
  shows "let r = calculateMoETimings (Fin t) (Fin P) (Fin L) (Fin bw) (Fin cu) (Fin s) in
           combineMs r = dispatchMs r \<and> js_eq (combineMs r) (dispatchMs r)"
proof -
  have "P \<noteq> 0" "bw \<noteq> 0" using assms by simp_all
  then show ?thesis
    by (simp add: timings_fields dispatch_finite)
qed

theorem combine_equals_dispatch_witness:
  "(1::real) \<le> 16 \<and> (0::real) < 25 \<and>
   (let r = calculateMoETimings (Fin 1024) (Fin 16) (Fin 25) (Fin 25) (Fin 0.45) (Fin 0.1) in
      combineMs r = dispatchMs r \<and> js_eq (combineMs r) (dispatchMs r))"
  using combine_equals_dispatch[of 16 25 1024 25 "0.45" "0.1"] by simp

section \<open>An empty batch\<close>

text \<open>
  C7, as the code has it.  With no tokens (and \<open>P \<ge> 1\<close>, a positive bandwidth, a
  latency \<open>L \<ge> 0\<close> in microseconds) the compute time is 0, while dispatch and combine
  each still pay the fixed latency \<open>L / 1000\<close> ms, and both totals are twice that.  The
  timings are all zero when the latency is zero.
\<close>

theorem zero_tokens_timings:
  assumes "1 \<le> P" "0 < bw" "0 \<le> L"
  shows "calculateMoETimings (Fin 0) (Fin P) (Fin L) (Fin bw) (Fin cu) (Fin s) =
           \<lparr> dispatchMs = Fin (L / 1000), computeMs = Fin 0, combineMs = Fin (L / 1000),
             sequentialTotalMs = Fin (2 * (L / 1000)),
             dboOverlappedMs = Fin (2 * (L / 1000)) \<rparr>"
proof -
  have P: "0 < P" "P \<noteq> 0" and bw: "bw \<noteq> 0" using assms by simp_all
  show ?thesis
    unfolding calculateMoETimings_def Let_def dispatch_finite[OF P(2) bw] compute_finite[OF P(1)]
    using assms(3) by simp
qed

theorem zero_tokens_timings_witness:
  "(1::real) \<le> 16 \<and> (0::real) < 25 \<and> (0::real) \<le> 0 \<and>
   calculateMoETimings (Fin 0) (Fin 16) (Fin 0) (Fin 25) (Fin 0.45) (Fin 0.1) =
     \<lparr> dispatchMs = Fin 0, computeMs = Fin 0, combineMs = Fin 0,
       sequentialTotalMs = Fin 0, dboOverlappedMs = Fin 0 \<rparr>"
  using zero_tokens_timings[of 16 25 0 "0.45" "0.1"] by simp

text \<open>
  The default parameters with no tokens: the dispatch time is the latency of 25
  microseconds, 0.025 ms, not 0.
\<close>

theorem zero_tokens_dispatch_nonzero:
  "dispatchMs (calculateMoETimings (Fin 0) (Fin 16) (Fin 25) (Fin 25) (Fin 0.45) (Fin 0.1))
     = Fin 0.025 \<and>
   dispatchMs (calculateMoETimings (Fin 0) (Fin 16) (Fin 25) (Fin 25) (Fin 0.45) (Fin 0.1))
     \<noteq> Fin 0"
  by (simp add: timings_fields dispatch_finite)

section \<open>Inputs outside the domain\<close>

lemma signedInf_not_finite: "\<not> isFinite (signedInf s)"
  by (simp add: signedInf_def)

lemma add_not_finite: "\<not> isFinite x \<or> \<not> isFinite y \<Longrightarrow> \<not> isFinite (js_add x y)"
  by (cases x; cases y) simp_all

lemma mul_not_finite: "\<not> isFinite x \<or> \<not> isFinite y \<Longrightarrow> \<not> isFinite (js_mul x y)"
  by (cases x; cases y) (simp_all add: signedInf_not_finite)

lemma div_not_finite: "\<not> isFinite x \<Longrightarrow> \<not> isFinite (js_div x (Fin c))"
  by (cases x) simp_all

lemma dispatch_zero_bandwidth:
  "\<not> isFinite (calculateDispatchTimeMs (Fin t) (Fin P) (Fin L) (Fin 0))"
proof -
  have "\<not> isFinite (js_div x (Fin 0))" for x
    by (cases x) (simp_all add: signedInf_not_finite)
  then show ?thesis
    unfolding calculateDispatchTimeMs_def Let_def
    by (intro add_not_finite disjI2 mul_not_finite disjI1) simp
qed

lemma penalty_nonpositive_ranks:
  assumes "P \<le> 0"
  shows "\<not> isFinite (coordinationPenalty (Fin P))"
  using assms by (cases "P = 0") (simp_all add: coordinationPenalty_def signedInf_def)

lemma compute_nonpositive_ranks:
  assumes "P \<le> 0"
  shows "\<not> isFinite (calculateComputeTimeMs (Fin t) (Fin P) (Fin cu) (Fin s))"
  unfolding calculateComputeTimeMs_def Let_def calculateStragglerFactor_def
  by (intro div_not_finite mul_not_finite disjI1 disjI2 penalty_nonpositive_ranks assms)

text \<open>
  C5, as the code has it.  The cost model checks nothing and raises nothing: it returns a
  timing record for every input.  On finite inputs with a bandwidth of zero or with
  \<open>P \<le> 0\<close> the record it returns is not finite: with a zero bandwidth the dispatch and
  combine times are an infinity or NaN, with \<open>P \<le> 0\<close> the compute time is, and in both
  cases the sequential total is.
\<close>

theorem invalid_inputs_give_non_finite_timings:
  assumes "bw = 0 \<or> P \<le> 0"
  shows "let r = calculateMoETimings (Fin t) (Fin P) (Fin L) (Fin bw) (Fin cu) (Fin s) in
           (bw = 0 \<longrightarrow> \<not> isFinite (dispatchMs r) \<and> \<not> isFinite (combineMs r)) \<and>
           (P \<le> 0 \<longrightarrow> \<not> isFinite (computeMs r)) \<and>
           \<not> isFinite (sequentialTotalMs r) \<and>
           \<not> timingsFinite r"
proof -
  have d: "\<not> isFinite (calculateDispatchTimeMs (Fin t) (Fin P) (Fin L) (Fin bw))" if "bw = 0"
    using that dispatch_zero_bandwidth[of t P L] by simp
  have c: "\<not> isFinite (calculateComputeTimeMs (Fin t) (Fin P) (Fin cu) (Fin s))" if "P \<le> 0"
    using that by (rule compute_nonpositive_ranks)
  have sq: "\<not> isFinite
               (js_add (js_add (calculateDispatchTimeMs (Fin t) (Fin P) (Fin L) (Fin bw))
                               (calculateComputeTimeMs (Fin t) (Fin P) (Fin cu) (Fin s)))
                       (calculateDispatchTimeMs (Fin t) (Fin P) (Fin L) (Fin bw)))"
    using assms
  proof
    assume "bw = 0"
    then show ?thesis by (intro add_not_finite disjI2 d)
  next
    assume "P \<le> 0"
    then show ?thesis by (intro add_not_finite disjI1 disjI2 c)
  qed
  show ?thesis
    unfolding Let_def timings_fields timingsFinite_def
    using d c sq by blast
qed

theorem invalid_inputs_give_non_finite_timings_witness:
  "((0::real) = 0 \<or> (0::real) \<le> 0) \<and> (0::real) = 0 \<and> (0::real) \<le> 0 \<and>
   \<not> isFinite (dispatchMs
       (calculateMoETimings (Fin 1024) (Fin 0) (Fin 25) (Fin 0) (Fin 0.45) (Fin 0.1))) \<and>
   \<not> isFinite (combineMs
       (calculateMoETimings (Fin 1024) (Fin 0) (Fin 25) (Fin 0) (Fin 0.45) (Fin 0.1))) \<and>
   \<not> isFinite (computeMs
       (calculateMoETimings (Fin 1024) (Fin 0) (Fin 25) (Fin 0) (Fin 0.45) (Fin 0.1))) \<and>
   \<not> isFinite (sequentialTotalMs
       (calculateMoETimings (Fin 1024) (Fin 0) (Fin 25) (Fin 0) (Fin 0.45) (Fin 0.1))) \<and>
   \<not> timingsFinite
       (calculateMoETimings (Fin 1024) (Fin 0) (Fin 25) (Fin 0) (Fin 0.45) (Fin 0.1))"
  using invalid_inputs_give_non_finite_timings[of 0 0 1024 25 "0.45" "0.1"]
  by (simp add: Let_def)

text \<open>
  The default parameters with a bandwidth of 0: a record comes back, and its dispatch
  time and both totals are \<open>Infinity\<close>.
\<close>

theorem zero_bandwidth_infinite_timings:
  "(0::real) \<le> 0 \<and>
   dispatchMs (calculateMoETimings (Fin 1024) (Fin 16) (Fin 25) (Fin 0) (Fin 0.45) (Fin 0.1))
     = PInf \<and>
   sequentialTotalMs
     (calculateMoETimings (Fin 1024) (Fin 16) (Fin 25) (Fin 0) (Fin 0.45) (Fin 0.1)) = PInf \<and>
   dboOverlappedMs
     (calculateMoETimings (Fin 1024) (Fin 16) (Fin 25) (Fin 0) (Fin 0.45) (Fin 0.1)) = PInf"
  by (simp add: timings_fields compute_finite calculateDispatchTimeMs_def bytesPerToken_val
      Let_def signedInf_def)

section \<open>The schedule builder takes every input\<close>

text \<open>
  C6, as the code has it.  The schedule builder checks neither the policy nor the
  durations: for every timing record and every options object it returns a schedule with
  three blocks for batch A and, for batch B, three blocks under the overlapped policy and
  none under the sequential one.  The policy is the truth value of \<open>enableDBO\<close>, so no
  policy value is invalid.
\<close>

theorem schedule_built_for_every_input:
  "length (batchA (buildSchedule tm opts)) = 3 \<and>
   length (batchB (buildSchedule tm opts)) = (if enableDBO opts then 3 else 0)"
  by (simp add: buildSchedule_def Let_def)

text \<open>
  A negative dispatch time, a NaN compute time and an infinite combine time: the blocks
  of batch A are built from them.
\<close>

theorem schedule_from_invalid_durations:
  "batchA (buildSchedule
      \<lparr> dispatchMs = Fin (- 1), computeMs = NaN, combineMs = PInf,
        sequentialTotalMs = NaN, dboOverlappedMs = NaN \<rparr>
      \<lparr> enableDBO = True, enableSplit = False \<rparr>) =
     [\<lparr> phase = Dispatch, start = Fin 0, duration = Fin (- 1) \<rparr>,
      \<lparr> phase = Compute, start = Fin (- 1), duration = NaN \<rparr>,
      \<lparr> phase = Combine, start = NaN, duration = PInf \<rparr>]"
  by (simp add: buildSchedule_def Let_def)

section \<open>Coinciding curves\<close>

lemma diff_self_not_negative: "\<not> js_lt (js_sub x x) (Fin 0)"
  by (cases x) (simp_all add: js_sub_def)

text \<open>
  C9.  When the two sampled times are the same value at every sample point, the scan
  finds no crossover: the result is \<open>null\<close>, no number at all.
\<close>

theorem coinciding_curves_no_crossover:
  assumes "\<forall>p \<in> set ps. llTime p = htTime p"
  shows "findCrossover ps = None"
  using assms
proof (induction ps rule: findCrossover.induct)
  case (1 p1 p2 ps)
  then show ?case by (simp add: Let_def diff_self_not_negative)
qed simp_all

theorem coinciding_curves_no_crossover_witness:
  "llTime \<lparr> tokens = Fin 1, llTime = Fin 0.05, htTime = Fin 0.05 \<rparr> =
     htTime \<lparr> tokens = Fin 1, llTime = Fin 0.05, htTime = Fin 0.05 \<rparr> \<and>
   llTime \<lparr> tokens = Fin 8, llTime = Fin 0.07, htTime = Fin 0.07 \<rparr> =
     htTime \<lparr> tokens = Fin 8, llTime = Fin 0.07, htTime = Fin 0.07 \<rparr> \<and>
   llTime \<lparr> tokens = Fin 64, llTime = PInf, htTime = PInf \<rparr> =
     htTime \<lparr> tokens = Fin 64, llTime = PInf, htTime = PInf \<rparr> \<and>
   findCrossover [\<lparr> tokens = Fin 1, llTime = Fin 0.05, htTime = Fin 0.05 \<rparr>,
                  \<lparr> tokens = Fin 8, llTime = Fin 0.07, htTime = Fin 0.07 \<rparr>,
                  \<lparr> tokens = Fin 64, llTime = PInf, htTime = PInf \<rparr>] = None"
  using coinciding_curves_no_crossover
    [of "[\<lparr> tokens = Fin 1, llTime = Fin 0.05, htTime = Fin 0.05 \<rparr>,
          \<lparr> tokens = Fin 8, llTime = Fin 0.07, htTime = Fin 0.07 \<rparr>,
          \<lparr> tokens = Fin 64, llTime = PInf, htTime = PInf \<rparr>]"]
  by simp

section \<open>The overlapped schedule\<close>

lemma overlapped_schedule:
  "buildSchedule
     \<lparr> dispatchMs = Fin dM, computeMs = Fin cM, combineMs = Fin bM,
       sequentialTotalMs = sq, dboOverlappedMs = ov \<rparr>
     \<lparr> enableDBO = True, enableSplit = sp \<rparr> =
   (let d = phaseDuration sp dM; c = phaseDuration sp cM; b = phaseDuration sp bM in
    \<lparr> batchA = [\<lparr> phase = Dispatch, start = Fin 0, duration = Fin d \<rparr>,
                \<lparr> phase = Compute, start = Fin d, duration = Fin c \<rparr>,
                \<lparr> phase = Combine, start = Fin (max (d + c) (d + d)), duration = Fin b \<rparr>],
      batchB = [\<lparr> phase = Dispatch, start = Fin d, duration = Fin d \<rparr>,
                \<lparr> phase = Compute, start = Fin (max (d + d) (d + c)), duration = Fin c \<rparr>,
                \<lparr> phase = Combine,
                  start = Fin (max (max (d + d) (d + c) + c) (max (d + c) (d + d) + b)),
                  duration = Fin b \<rparr>] \<rparr>)"
  by (simp add: buildSchedule_def Let_def phaseDuration_def)

text \<open>
  C2.  For non-negative finite timings, with or without the split, let \<open>d\<close>, \<open>c\<close>, \<open>b\<close> be
  the phase durations the schedule is built from.  Under the overlapped policy each batch
  has a dispatch, a compute and a combine block of these durations, and: dispatch A starts
  at 0; dispatch B starts at the end of dispatch A, which is \<open>d\<close>; compute A starts at
  \<open>d\<close>; compute B starts at the later of the ends of dispatch B and compute A; combine A
  starts at the later of the ends of compute A and dispatch B; combine B starts at the
  later of the ends of compute B and combine A; the total duration is the later of the
  ends of the two combine blocks.  In particular dispatch B starts exactly at the end of
  dispatch A, and combine B starts no earlier than the end of combine A.
\<close>

theorem overlapped_schedule_starts:
  assumes "0 \<le> dM" "0 \<le> cM" "0 \<le> bM"
  shows "let sch = buildSchedule
                     \<lparr> dispatchMs = Fin dM, computeMs = Fin cM, combineMs = Fin bM,
                       sequentialTotalMs = sq, dboOverlappedMs = ov \<rparr>
                     \<lparr> enableDBO = True, enableSplit = sp \<rparr>;
             d = phaseDuration sp dM; c = phaseDuration sp cM; b = phaseDuration sp bM;
             dispatchA = batchA sch ! 0; computeA = batchA sch ! 1; combineA = batchA sch ! 2;
             dispatchB = batchB sch ! 0; computeB = batchB sch ! 1; combineB = batchB sch ! 2
         in map phase (batchA sch) = [Dispatch, Compute, Combine] \<and>
            map phase (batchB sch) = [Dispatch, Compute, Combine] \<and>
            map duration (batchA sch) = [Fin d, Fin c, Fin b] \<and>
            map duration (batchB sch) = [Fin d, Fin c, Fin b] \<and>
            start dispatchA = Fin 0 \<and>
            start dispatchB = blockEnd dispatchA \<and> blockEnd dispatchA = Fin d \<and>
            start computeA = Fin d \<and>
            start computeB = js_max (blockEnd dispatchB) (blockEnd computeA) \<and>
            start combineA = js_max (blockEnd computeA) (blockEnd dispatchB) \<and>
            start combineB = js_max (blockEnd computeB) (blockEnd combineA) \<and>
            calculateTotalDuration sch True =
              Some (js_max (blockEnd combineA) (blockEnd combineB)) \<and>
            js_eq (start dispatchB) (blockEnd dispatchA) \<and>
            js_ge (start combineB) (blockEnd combineA)"
  unfolding overlapped_schedule Let_def
  by (simp add: blockEnd_def calculateTotalDuration_def js_ge_def)

theorem overlapped_schedule_starts_witness:
  "(0::real) \<le> 3 \<and> (0::real) \<le> 4 \<and> (0::real) \<le> 3 \<and>
   (let sch = buildSchedule
                \<lparr> dispatchMs = Fin 3, computeMs = Fin 4, combineMs = Fin 3,
                  sequentialTotalMs = Fin 10, dboOverlappedMs = Fin 6 \<rparr>
                \<lparr> enableDBO = True, enableSplit = False \<rparr>;
        dispatchA = batchA sch ! 0; computeA = batchA sch ! 1; combineA = batchA sch ! 2;
        dispatchB = batchB sch ! 0; computeB = batchB sch ! 1; combineB = batchB sch ! 2
    in map phase (batchA sch) = [Dispatch, Compute, Combine] \<and>
       map phase (batchB sch) = [Dispatch, Compute, Combine] \<and>
       map duration (batchA sch) = [Fin 3, Fin 4, Fin 3] \<and>
       map duration (batchB sch) = [Fin 3, Fin 4, Fin 3] \<and>
       start dispatchA = Fin 0 \<and>
       start dispatchB = blockEnd dispatchA \<and> blockEnd dispatchA = Fin 3 \<and>
       start computeA = Fin 3 \<and>
       start computeB = js_max (blockEnd dispatchB) (blockEnd computeA) \<and>
       start combineA = js_max (blockEnd computeA) (blockEnd dispatchB) \<and>
       start combineB = js_max (blockEnd computeB) (blockEnd combineA) \<and>
       calculateTotalDuration sch True =
         Some (js_max (blockEnd combineA) (blockEnd combineB)) \<and>
       calculateTotalDuration sch True = Some (Fin 14) \<and>
       js_eq (start dispatchB) (blockEnd dispatchA) \<and>
       js_ge (start combineB) (blockEnd combineA))"
  using overlapped_schedule_starts[of 3 4 3 "Fin 10" "Fin 6" False]
  by (simp add: Let_def phaseDuration_def buildSchedule_def calculateTotalDuration_def
      blockEnd_def)

text \<open>
  C10.  For non-negative finite timings, with or without the split, in the schedule of
  the overlapped policy the four blocks of the fabric follow one another in the order
  dispatch A, dispatch B, combine A, combine B: every one of them ends no later than each
  later one starts, so their intervals are pairwise non-overlapping.  Likewise compute A
  ends no later than compute B starts.  No block ends before it starts.
\<close>

theorem overlapped_resources_serialized:
  assumes "0 \<le> dM" "0 \<le> cM" "0 \<le> bM"
  shows "let sch = buildSchedule
                     \<lparr> dispatchMs = Fin dM, computeMs = Fin cM, combineMs = Fin bM,
                       sequentialTotalMs = sq, dboOverlappedMs = ov \<rparr>
                     \<lparr> enableDBO = True, enableSplit = sp \<rparr>;
             dispatchA = batchA sch ! 0; computeA = batchA sch ! 1; combineA = batchA sch ! 2;
             dispatchB = batchB sch ! 0; computeB = batchB sch ! 1; combineB = batchB sch ! 2
         in js_le (start dispatchA) (blockEnd dispatchA) \<and>
            js_le (blockEnd dispatchA) (start dispatchB) \<and>
            js_le (blockEnd dispatchA) (start combineA) \<and>
            js_le (blockEnd dispatchA) (start combineB) \<and>
            js_le (start dispatchB) (blockEnd dispatchB) \<and>
            js_le (blockEnd dispatchB) (start combineA) \<and>
            js_le (blockEnd dispatchB) (start combineB) \<and>
            js_le (start combineA) (blockEnd combineA) \<and>
            js_le (blockEnd combineA) (start combineB) \<and>
            js_le (start combineB) (blockEnd combineB) \<and>
            js_le (start computeA) (blockEnd computeA) \<and>
            js_le (blockEnd computeA) (start computeB) \<and>
            js_le (start computeB) (blockEnd computeB)"
proof -
  have "0 \<le> phaseDuration sp dM" "0 \<le> phaseDuration sp cM" "0 \<le> phaseDuration sp bM"
    using assms by (simp_all add: phaseDuration_def)
  then show ?thesis
    unfolding overlapped_schedule Let_def
    by (simp add: blockEnd_def) (auto simp add: max_def)
qed

theorem overlapped_resources_serialized_witness:
  "(0::real) \<le> 3 \<and> (0::real) \<le> 4 \<and> (0::real) \<le> 3 \<and>
   (let sch = buildSchedule
                \<lparr> dispatchMs = Fin 3, computeMs = Fin 4, combineMs = Fin 3,
                  sequentialTotalMs = Fin 10, dboOverlappedMs = Fin 6 \<rparr>
                \<lparr> enableDBO = True, enableSplit = True \<rparr>;
        dispatchA = batchA sch ! 0; computeA = batchA sch ! 1; combineA = batchA sch ! 2;
        dispatchB = batchB sch ! 0; computeB = batchB sch ! 1; combineB = batchB sch ! 2
    in js_le (start dispatchA) (blockEnd dispatchA) \<and>
       js_le (blockEnd dispatchA) (start dispatchB) \<and>
       js_le (blockEnd dispatchA) (start combineA) \<and>
       js_le (blockEnd dispatchA) (start combineB) \<and>
       js_le (start dispatchB) (blockEnd dispatchB) \<and>
       js_le (blockEnd dispatchB) (start combineA) \<and>
       js_le (blockEnd dispatchB) (start combineB) \<and>
       js_le (start combineA) (blockEnd combineA) \<and>
       js_le (blockEnd combineA) (start combineB) \<and>
       js_le (start combineB) (blockEnd combineB) \<and>
       js_le (start computeA) (blockEnd computeA) \<and>
       js_le (blockEnd computeA) (start computeB) \<and>
       js_le (start computeB) (blockEnd computeB))"
  using overlapped_resources_serialized[of 3 4 3 "Fin 10" "Fin 6" True] by simp

section \<open>Communication share at two batch sizes\<close>

lemma sqrt_256: "sqrt 256 = 16"
  using real_sqrt_abs[of 16] by simp

lemma sqrt_1048576: "sqrt 1048576 = 1024"
  using real_sqrt_abs[of 1024] by simp

lemma compute_256:
  assumes "0 < P"
  shows "calculateComputeTimeMs (Fin 256) (Fin P) (Fin cu) (Fin s) =
           Fin (614.4 * ((1 + 2.2 * s) * (1 + 0.12 * log 2 P) * cu / (1000 * P)))"
  unfolding compute_finite[OF assms] by (simp add: sqrt_256)

lemma compute_1048576:
  assumes "0 < P"
  shows "calculateComputeTimeMs (Fin 1048576) (Fin P) (Fin cu) (Fin s) =
           Fin (2103705.6 * ((1 + 2.2 * s) * (1 + 0.12 * log 2 P) * cu / (1000 * P)))"
  unfolding compute_finite[OF assms] by (simp add: sqrt_1048576)

lemma dispatch_256:
  assumes "0 < P" "0 < bw"
  shows "calculateDispatchTimeMs (Fin 256) (Fin P) (Fin L) (Fin bw) =
           Fin (L / 1000 + 6.291456 / (P * bw))"
proof -
  have "P \<noteq> 0" "bw \<noteq> 0" using assms by simp_all
  then show ?thesis by (simp add: dispatch_finite field_simps)
qed

lemma dispatch_1048576:
  assumes "0 < P" "0 < bw"
  shows "calculateDispatchTimeMs (Fin 1048576) (Fin P) (Fin L) (Fin bw) =
           Fin (L / 1000 + 25769.803776 / (P * bw))"
proof -
  have "P \<noteq> 0" "bw \<noteq> 0" using assms by simp_all
  then show ?thesis by (simp add: dispatch_finite field_simps)
qed

lemma commShare_val:
  assumes "calculateDispatchTimeMs t P L bw = Fin d" "calculateComputeTimeMs t P cu s = Fin c"
    "0 < d" "0 \<le> c"
  shows "commShare (calculateMoETimings t P L bw cu s) = Fin (2 * d / (2 * d + c))"
  using assms by (simp add: commShare_def timings_fields)

lemma tolerance_poly:
  fixes A B :: real
  assumes "0 \<le> A" "0 \<le> B" "9801 * A \<le> 10201 * B"
  shows "0 \<le> 1 + 101 * B - 99 * A + A * B"
proof -
  define T where "T = (101 + A) * (9801 / 10201 * A)"
  have B: "9801 / 10201 * A \<le> B" using assms(3) by simp
  have le: "T \<le> (101 + A) * B"
    unfolding T_def using mult_left_mono[OF B, of "101 + A"] assms(1) by simp
  have "1 - 99 * A + T = (1 - 99 / 101 * A)\<^sup>2"
    unfolding T_def by (simp add: power2_eq_square field_simps)
  then have sq: "0 \<le> 1 - 99 * A + T" by simp
  have "(101 + A) * B = 101 * B + A * B" by (simp add: algebra_simps)
  then show ?thesis using le sq by linarith
qed

lemma share_tolerance:
  fixes d1 d2 K g1 g2 :: real
  assumes "0 < d1" "0 < d2" "0 \<le> K" "0 < g1" "0 < g2"
    and "9801 * (g1 * d2) \<le> 10201 * (g2 * d1)"
  shows "2 * d2 / (2 * d2 + g2 * K) \<le> 2 * d1 / (2 * d1 + g1 * K) + 1 / 100"
proof -
  define A where "A = g1 * K / (2 * d1)"
  define B where "B = g2 * K / (2 * d2)"
  have A: "0 \<le> A" and B: "0 \<le> B" using assms by (simp_all add: A_def B_def)
  have "9801 * (g1 * d2) * K \<le> 10201 * (g2 * d1) * K"
    using mult_right_mono[OF assms(6) assms(3)] .
  then have "9801 * A \<le> 10201 * B"
    using assms(1,2) by (simp add: A_def B_def field_simps)
  then have poly: "0 \<le> 1 + 101 * B - 99 * A + A * B"
    using tolerance_poly[OF A B] by simp
  have f1: "2 * d1 / (2 * d1 + g1 * K) = 1 / (1 + A)"
    using assms(1) A by (simp add: A_def field_simps)
  have f2: "2 * d2 / (2 * d2 + g2 * K) = 1 / (1 + B)"
    using assms(2) B by (simp add: B_def field_simps)
  have "100 * (1 + A) \<le> 100 * (1 + B) + (1 + A) * (1 + B)"
    using poly by (simp add: algebra_simps)
  then have "1 / (1 + B) \<le> 1 / (1 + A) + 1 / 100"
    using A B by (simp add: field_simps)
  then show ?thesis unfolding f1 f2 .
qed


lemma share_values:
  assumes "1 \<le> P" "0 < bw" "0 \<le> L" "0 \<le> cu" "0 \<le> s"
  defines "K \<equiv> (1 + 2.2 * s) * (1 + 0.12 * log 2 P) * cu / (1000 * P)"
    and "d1 \<equiv> L / 1000 + 6.291456 / (P * bw)"
    and "d2 \<equiv> L / 1000 + 25769.803776 / (P * bw)"
  shows "0 < d1" "0 < d2" "0 \<le> K"
    "commShare (calculateMoETimings (Fin 256) (Fin P) (Fin L) (Fin bw) (Fin cu) (Fin s)) =
       Fin (2 * d1 / (2 * d1 + 614.4 * K))"
    "commShare (calculateMoETimings (Fin 1048576) (Fin P) (Fin L) (Fin bw) (Fin cu) (Fin s)) =
       Fin (2 * d2 / (2 * d2 + 2103705.6 * K))"
proof -
  have P: "0 < P" using assms by simp
  have Pbw: "0 < P * bw" using P assms by simp
  have "0 \<le> log 2 P" using assms by simp
  then have "0 \<le> (1 + 2.2 * s) * (1 + 0.12 * log 2 P) * cu" using assms by simp
  then show K: "0 \<le> K" using P by (simp add: K_def)
  show d1: "0 < d1" and d2: "0 < d2"
    using Pbw assms(3) by (auto simp add: d1_def d2_def intro: add_nonneg_pos)
  have D1: "calculateDispatchTimeMs (Fin 256) (Fin P) (Fin L) (Fin bw) = Fin d1"
    using dispatch_256[OF P assms(2)] by (simp add: d1_def)
  have D2: "calculateDispatchTimeMs (Fin 1048576) (Fin P) (Fin L) (Fin bw) = Fin d2"
    using dispatch_1048576[OF P assms(2)] by (simp add: d2_def)
  have C1: "calculateComputeTimeMs (Fin 256) (Fin P) (Fin cu) (Fin s) = Fin (614.4 * K)"
    using compute_256[OF P] by (simp add: K_def)
  have C2: "calculateComputeTimeMs (Fin 1048576) (Fin P) (Fin cu) (Fin s) =
              Fin (2103705.6 * K)"
    using compute_1048576[OF P] by (simp add: K_def)
  show "commShare (calculateMoETimings (Fin 256) (Fin P) (Fin L) (Fin bw) (Fin cu) (Fin s)) =
          Fin (2 * d1 / (2 * d1 + 614.4 * K))"
    using commShare_val[OF D1 C1 d1] K by simp
  show "commShare (calculateMoETimings (Fin 1048576) (Fin P) (Fin L) (Fin bw) (Fin cu) (Fin s)) =
          Fin (2 * d2 / (2 * d2 + 2103705.6 * K))"
    using commShare_val[OF D2 C2 d2] K by simp
qed

text \<open>
  C8, as the code has it.  For every valid parameter set held fixed except the token
  count (\<open>P \<ge> 1\<close>, bandwidth \<open>> 0\<close>, latency \<open>\<ge> 0\<close>, compute cost \<open>\<ge> 0\<close>, skew in
  \<open>[0, 1]\<close>) whose latency in microseconds times \<open>P\<close> times the bandwidth in GB/s is at
  least \<open>4102557794304 / 4364802875\<close> (about 939.92), the communication share of the
  sequential total at 1,048,576 tokens is at most the share at 256 tokens plus 0.01.  The
  parameters of the self-test (\<open>25 * 16 * 25 = 10000\<close>) are among them.
\<close>

theorem comm_share_large_batch:
  assumes "1 \<le> P" "0 < bw" "0 \<le> L" "0 \<le> cu" "0 \<le> s" "s \<le> 1"
    and "4102557794304 / 4364802875 \<le> L * P * bw"
  shows "js_le
           (commShare
              (calculateMoETimings (Fin 1048576) (Fin P) (Fin L) (Fin bw) (Fin cu) (Fin s)))
           (js_add
              (commShare
                 (calculateMoETimings (Fin 256) (Fin P) (Fin L) (Fin bw) (Fin cu) (Fin s)))
              (Fin 0.01))"
proof -
  define u where "u = 1 / (P * bw)"
  define K where "K = (1 + 2.2 * s) * (1 + 0.12 * log 2 P) * cu / (1000 * P)"
  define d1 where "d1 = L / 1000 + 6.291456 / (P * bw)"
  define d2 where "d2 = L / 1000 + 25769.803776 / (P * bw)"
  note v = share_values[OF assms(1-5), folded K_def d1_def d2_def]
  have Pbw: "0 < P * bw" using assms by simp
  have u: "0 < u" using Pbw by (simp add: u_def)
  have "4102557794304 / 4364802875 * u \<le> L" using assms(7) Pbw by (simp add: u_def field_simps)
  moreover have "d1 = L / 1000 + 6.291456 * u" "d2 = L / 1000 + 25769.803776 * u"
    by (simp_all add: d1_def d2_def u_def)
  ultimately have key: "9801 * (614.4 * d2) \<le> 10201 * (2103705.6 * d1)" by simp
  have "2 * d2 / (2 * d2 + 2103705.6 * K) \<le> 2 * d1 / (2 * d1 + 614.4 * K) + 1 / 100"
    using share_tolerance[OF v(1) v(2) v(3) _ _ key] by simp
  then show ?thesis unfolding v(4) v(5) by simp
qed

theorem comm_share_large_batch_witness:
  "(1::real) \<le> 16 \<and> (0::real) < 25 \<and> (0::real) \<le> 25 \<and> (0::real) \<le> 0.45 \<and>
   (0::real) \<le> 0.1 \<and> (0.1::real) \<le> 1 \<and> (4102557794304 / 4364802875 :: real) \<le> 25 * 16 * 25 \<and>
   js_le
     (commShare
        (calculateMoETimings (Fin 1048576) (Fin 16) (Fin 25) (Fin 25) (Fin 0.45) (Fin 0.1)))
     (js_add
        (commShare
           (calculateMoETimings (Fin 256) (Fin 16) (Fin 25) (Fin 25) (Fin 0.45) (Fin 0.1)))
        (Fin 0.01))"
  using comm_share_large_batch[of 16 25 25 "0.45" "0.1"] by simp

lemma sqrt_ratio: "sqrt (10201 / 9801) = 101 / 99"
  using real_sqrt_abs[of "101 / 99"] by (simp add: power2_eq_square)

lemma share_gap:
  fixes d1 d2 g1 g2 :: real
  assumes "0 < d1" "0 < d2" "0 < g1" "0 < g2"
    and "10201 * (g2 * d1) < 9801 * (g1 * d2)"
  defines "K \<equiv> 2 * d1 * sqrt (g1 * d2 / (g2 * d1)) / g1"
  shows "0 \<le> K"
    and "2 * d1 / (2 * d1 + g1 * K) + 1 / 100 < 2 * d2 / (2 * d2 + g2 * K)"
proof -
  define q where "q = g1 * d2 / (g2 * d1)"
  define r where "r = sqrt q"
  have q: "10201 / 9801 < q" using assms(1-5) by (simp add: q_def field_simps)
  then have "sqrt (10201 / 9801) < r" unfolding r_def by (simp only: real_sqrt_less_iff)
  then have r: "101 / 99 < r" by (simp only: sqrt_ratio)
  then have rpos: "0 < r" by simp
  have rr: "r * r = q" using q by (simp add: r_def)
  have K: "K = 2 * d1 * r / g1" by (simp add: K_def r_def q_def)
  show "0 \<le> K" unfolding K using assms rpos by simp
  have g1K: "g1 * K = 2 * d1 * r" unfolding K using assms(3) by simp
  have "2 * d1 + 2 * d1 * r = 2 * d1 * (1 + r)" by (simp add: algebra_simps)
  then have f1: "2 * d1 / (2 * d1 + g1 * K) = 1 / (1 + r)"
    unfolding g1K using assms(1) rpos by simp
  have "g2 * K * r = 2 * d1 * g2 / g1 * (r * r)" unfolding K by simp
  also have "\<dots> = 2 * d2" unfolding rr q_def using assms(1-4) by simp
  finally have g2K: "g2 * K = 2 * d2 / r" using rpos by (simp add: field_simps)
  have "2 * d2 + 2 * d2 / r = 2 * d2 * ((1 + r) / r)" using rpos by (simp add: field_simps)
  then have f2: "2 * d2 / (2 * d2 + g2 * K) = r / (1 + r)"
    unfolding g2K using assms(2) rpos by simp
  have "1 / 100 * (1 + r) < r - 1" using r by simp
  then have "1 / 100 < (r - 1) / (1 + r)"
    using rpos by (simp only: pos_less_divide_eq[of "1 + r"] add_pos_pos zero_less_one)
  moreover have "(r - 1) / (1 + r) = r / (1 + r) - 1 / (1 + r)"
    by (simp add: diff_divide_distrib)
  ultimately have "1 / (1 + r) + 1 / 100 < r / (1 + r)" by linarith
  then show "2 * d1 / (2 * d1 + g1 * K) + 1 / 100 < 2 * d2 / (2 * d2 + g2 * K)"
    unfolding f1 f2 .
qed

text \<open>
  The bound is the least one: below it, for every \<open>P \<ge> 1\<close>, bandwidth \<open>> 0\<close> and
  latency \<open>\<ge> 0\<close>, some compute cost (at skew 0) makes the share at 1,048,576 tokens
  exceed the share at 256 tokens by more than 0.01.
\<close>

lemma comm_share_threshold_sharp:
  assumes "1 \<le> P" "0 < bw" "0 \<le> L"
    and "L * P * bw < 4102557794304 / 4364802875"
  shows "\<exists>cu. 0 \<le> cu \<and>
           \<not> js_le
               (commShare
                  (calculateMoETimings (Fin 1048576) (Fin P) (Fin L) (Fin bw) (Fin cu) (Fin 0)))
               (js_add
                  (commShare
                     (calculateMoETimings (Fin 256) (Fin P) (Fin L) (Fin bw) (Fin cu) (Fin 0)))
                  (Fin 0.01))"
proof -
  define u where "u = 1 / (P * bw)"
  define d1 where "d1 = L / 1000 + 6.291456 / (P * bw)"
  define d2 where "d2 = L / 1000 + 25769.803776 / (P * bw)"
  define K where "K = 2 * d1 * sqrt (614.4 * d2 / (2103705.6 * d1)) / 614.4"
  define c where "c = 1 + 0.12 * log 2 P"
  define cu where "cu = 1000 * P * K / c"
  have P: "0 < P" using assms by simp
  have Pbw: "0 < P * bw" using P assms by simp
  have u: "0 < u" using Pbw by (simp add: u_def)
  have d1: "0 < d1" and d2: "0 < d2"
    using Pbw assms(3) by (auto simp add: d1_def d2_def intro: add_nonneg_pos)
  have "L < 4102557794304 / 4364802875 * u" using assms(4) Pbw by (simp add: u_def field_simps)
  moreover have "d1 = L / 1000 + 6.291456 * u" "d2 = L / 1000 + 25769.803776 * u"
    by (simp_all add: d1_def d2_def u_def)
  ultimately have key: "10201 * (2103705.6 * d1) < 9801 * (614.4 * d2)" by simp
  have gap: "0 \<le> K"
    "2 * d1 / (2 * d1 + 614.4 * K) + 1 / 100 < 2 * d2 / (2 * d2 + 2103705.6 * K)"
    using share_gap[OF d1 d2 _ _ key] by (simp_all add: K_def)
  have "0 \<le> log 2 P" using assms by simp
  then have c: "0 < c" by (simp add: c_def)
  have cu: "0 \<le> cu" using gap(1) P c by (simp add: cu_def)
  have Kcu: "(1 + 2.2 * 0) * c * cu / (1000 * P) = K"
    using P c by (simp add: cu_def)
  note v = share_values[OF assms(1-3) cu order_refl, folded c_def, unfolded Kcu,
      folded d1_def d2_def]
  have "\<not> js_le
               (commShare
                  (calculateMoETimings (Fin 1048576) (Fin P) (Fin L) (Fin bw) (Fin cu) (Fin 0)))
               (js_add
                  (commShare
                     (calculateMoETimings (Fin 256) (Fin P) (Fin L) (Fin bw) (Fin cu) (Fin 0)))
                  (Fin 0.01))"
    unfolding v(4) v(5) using gap(2) by simp
  with cu show ?thesis by blast
qed

text \<open>
  A valid parameter set with no latency (\<open>P = 1\<close>, bandwidth 25, compute cost 1, no skew):
  the share is about 0.450 at 256 tokens and about 0.495 at 1,048,576 tokens.
\<close>

theorem comm_share_grows_zero_latency:
  "(1::real) \<le> 1 \<and> (0::real) < 25 \<and> (0::real) \<le> 0 \<and> (0::real) \<le> 1 \<and> (0::real) \<le> 0 \<and>
   (0::real) \<le> 1 \<and>
   \<not> js_le
       (commShare
          (calculateMoETimings (Fin 1048576) (Fin 1) (Fin 0) (Fin 25) (Fin 1) (Fin 0)))
       (js_add
          (commShare
             (calculateMoETimings (Fin 256) (Fin 1) (Fin 0) (Fin 25) (Fin 1) (Fin 0)))
          (Fin 0.01))"
  by (simp add: commShare_def timings_fields dispatch_256 dispatch_1048576 compute_256
      compute_1048576)

end
